theory Spec2Isabelle
  imports Main "HOL-Library.Sublist" "HOL-Library.Multiset"
begin

section \<open>Task manager backend (server.js): model\<close>

text \<open>
  The backend is an Express application over three libraries: Mongoose (the document
  store), bcryptjs (password hashing) and jsonwebtoken (signed access tokens). Each
  route handler of server.js is a function from the store, the request and the request's
  environment (the clock, the salt bcrypt draws) to a response and the new store. The
  libraries are modelled by what server.js relies on:
  \<^item> strings are lists of 8-bit code units;
  \<^item> an ObjectId is a natural number, and a fresh one is the store's counter;
  \<^item> \<open>Date.now()\<close> is a natural number of milliseconds, read once per request;
  \<^item> the store is always reachable, requests are handled one after the other, and the
    fields of a JSON body are absent or of the type the schema names (a password that
    is not a string is as good as absent: bcryptjs rejects both alike);
  \<^item> the \<open>:id\<close> segment of a path is the text of an ObjectId, or some other text, which
    Mongoose cannot cast;
  \<^item> cryptography is symbolic: a bcrypt hash names its salt and its password (of which
    the comparison reads the 72 bytes bcrypt reads), a token names its payload and the
    key that signed it.
\<close>

subsection \<open>JavaScript strings\<close>

text \<open>
  \<open>String.prototype.replace(pattern, replacement)\<close> with a string pattern: the first
  occurrence of the pattern, wherever it stands, is replaced; a string without the
  pattern is returned as it is.
\<close>

fun replace :: "string \<Rightarrow> string \<Rightarrow> string \<Rightarrow> string" where
  "replace pat rep [] = (if pat = [] then rep else [])"
| "replace pat rep (c # cs) =
     (if prefix pat (c # cs) then rep @ drop (length pat) (c # cs)
      else c # replace pat rep cs)"

text \<open>
  \<open>String.prototype.trim()\<close>, the setter behind the schema option \<open>trim: true\<close>: white
  space and line terminators are removed from both ends. Among 8-bit code units these
  are TAB, LF, VT, FF, CR, SPACE and NBSP.
\<close>

definition is_ws :: "char \<Rightarrow> bool" where
  "is_ws c = (c = CHR 0x09 \<or> c = CHR 0x0A \<or> c = CHR 0x0B \<or> c = CHR 0x0C \<or>
              c = CHR 0x0D \<or> c = CHR 0x20 \<or> c = CHR 0xA0)"

definition trim :: "string \<Rightarrow> string" where
  "trim s = rev (dropWhile is_ws (rev (dropWhile is_ws s)))"

subsection \<open>Library errors and responses\<close>

datatype lib_error =
    ValidationError string
  | CastError string
  | DuplicateKey
  | IllegalArguments
  | JsonWebTokenError
  | TokenExpiredError

subsection \<open>jsonwebtoken\<close>

text \<open>
  A token carries the payload \<open>{userId, iat, exp}\<close> that \<open>jwt.sign\<close> writes (times in
  seconds) and, in place of the HMAC, the key that signed it. Its text is the four
  fields separated by dots, the numbers in decimal.
\<close>

record jwt =
  userId :: nat
  iat :: nat
  exp :: nat
  key :: string

definition digit_char :: "nat \<Rightarrow> char" where
  "digit_char d = ''0123456789'' ! d"

fun digit_val :: "char \<Rightarrow> nat option" where
  "digit_val c = map_of (zip ''0123456789'' [0, 1, 2, 3, 4, 5, 6, 7, 8, 9]) c"

fun digits :: "nat \<Rightarrow> string" where
  "digits n = (if n < 10 then [digit_char n] else digits (n div 10) @ [digit_char (n mod 10)])"

declare digits.simps [simp del]

fun parse_digits :: "nat \<Rightarrow> string \<Rightarrow> nat option" where
  "parse_digits a [] = Some a"
| "parse_digits a (c # cs) =
     (case digit_val c of None \<Rightarrow> None | Some d \<Rightarrow> parse_digits (10 * a + d) cs)"

definition parse_nat :: "string \<Rightarrow> nat option" where
  "parse_nat s = (if s = [] then None else parse_digits 0 s)"

fun split_dot :: "string \<Rightarrow> (string \<times> string) option" where
  "split_dot [] = None"
| "split_dot (c # cs) =
     (if c = CHR ''.'' then Some ([], cs)
      else (case split_dot cs of None \<Rightarrow> None | Some (a, b) \<Rightarrow> Some (c # a, b)))"

definition jwt_encode :: "jwt \<Rightarrow> string" where
  "jwt_encode j =
     digits (userId j) @ ''.'' @ digits (iat j) @ ''.'' @ digits (exp j) @ ''.'' @ key j"

definition jwt_decode :: "string \<Rightarrow> jwt option" where
  "jwt_decode s =
     (case split_dot s of None \<Rightarrow> None
      | Some (a, r1) \<Rightarrow>
     (case split_dot r1 of None \<Rightarrow> None
      | Some (b, r2) \<Rightarrow>
     (case split_dot r2 of None \<Rightarrow> None
      | Some (c, k) \<Rightarrow>
     (case parse_nat a of None \<Rightarrow> None
      | Some u \<Rightarrow>
     (case parse_nat b of None \<Rightarrow> None
      | Some i \<Rightarrow>
     (case parse_nat c of None \<Rightarrow> None
      | Some e \<Rightarrow> Some \<lparr>userId = u, iat = i, exp = e, key = k\<rparr>))))))"

text \<open>
  \<open>jwt.sign({ userId }, secret, { expiresIn })\<close>, \<open>expiresIn\<close> in seconds (\<open>'1h'\<close> is
  3600): \<open>iat\<close> is the clock in whole seconds and \<open>exp\<close> is \<open>iat + expiresIn\<close>. It throws
  when the secret has no value.
\<close>

definition jwt_sign :: "nat \<Rightarrow> string \<Rightarrow> nat \<Rightarrow> nat \<Rightarrow> lib_error + string" where
  "jwt_sign uid secretOrPrivateKey expiresIn now =
     (if secretOrPrivateKey = [] then Inl JsonWebTokenError
      else Inr (jwt_encode \<lparr>userId = uid, iat = now div 1000,
                            exp = now div 1000 + expiresIn, key = secretOrPrivateKey\<rparr>))"

text \<open>
  \<open>jwt.verify(token, secret)\<close>: the token must parse, the secret must have a value and
  be the key of the signature, and the clock in whole seconds must be below \<open>exp\<close>
  (the library rejects when \<open>clockTimestamp >= payload.exp\<close>).
\<close>

definition jwt_verify :: "string \<Rightarrow> string \<Rightarrow> nat \<Rightarrow> lib_error + jwt" where
  "jwt_verify token secretOrPublicKey now =
     (case jwt_decode token of
        None \<Rightarrow> Inl JsonWebTokenError
      | Some j \<Rightarrow>
          if secretOrPublicKey = [] then Inl JsonWebTokenError
          else if key j \<noteq> secretOrPublicKey then Inl JsonWebTokenError
          else if exp j \<le> now div 1000 then Inl TokenExpiredError
          else Inr j)"

subsection \<open>bcryptjs\<close>

text \<open>
  A hash names the salt and the password it was computed from. \<open>bcrypt.hash\<close> and
  \<open>bcrypt.compare\<close> reject a first argument that is not a string (\<open>None\<close>: the field is
  absent from the body, or is a number, a boolean, an object) with "Illegal arguments";
  \<open>compare\<close> hashes its argument with the salt of the stored hash and compares the two.

  The hash depends on the password through the key of the cipher only: the password
  in UTF-8 with a NUL behind it, read cyclically for 72 bytes. Two passwords with the
  same key have the same hash, so the comparison is of keys: a password that differs
  from the stored one behind its 72nd byte matches.
\<close>

datatype pwhash = Bcrypt nat string

definition utf8 :: "string \<Rightarrow> string" where
  "utf8 s =
     concat (map (\<lambda>c. if (of_char c :: nat) < 128 then [c]
                        else [char_of (192 + (of_char c :: nat) div 64),
                              char_of (128 + (of_char c :: nat) mod 64)]) s)"

definition bcrypt_key :: "string \<Rightarrow> string" where
  "bcrypt_key p = take 72 (concat (replicate 72 (utf8 p @ [CHR 0x00])))"

definition bcrypt_hash :: "string option \<Rightarrow> nat \<Rightarrow> lib_error + pwhash" where
  "bcrypt_hash s salt =
     (case s of None \<Rightarrow> Inl IllegalArguments | Some p \<Rightarrow> Inr (Bcrypt salt p))"

fun bcrypt_compare :: "string option \<Rightarrow> pwhash \<Rightarrow> lib_error + bool" where
  "bcrypt_compare None h = Inl IllegalArguments"
| "bcrypt_compare (Some p) (Bcrypt salt q) = Inr (bcrypt_key p = bcrypt_key q)"

subsection \<open>Schemas and the store\<close>

text \<open>
  \<open>UserSchema\<close> and \<open>TaskSchema\<close> with \<open>timestamps: true\<close>; \<open>u_id\<close> and \<open>t_id\<close> are the
  documents' \<open>_id\<close>, \<open>user\<close> is the task's owner reference.
\<close>

record User =
  u_id :: nat
  email :: string
  password :: pwhash
  u_createdAt :: nat
  u_updatedAt :: nat

record Task =
  t_id :: nat
  title :: string
  completed :: bool
  user :: nat
  createdAt :: nat
  updatedAt :: nat

record db =
  users :: "User list"
  tasks :: "Task list"
  next_oid :: nat

definition empty_db :: db where
  "empty_db = \<lparr>users = [], tasks = [], next_oid = 0\<rparr>"

text \<open>The bodies of the auth routes and of the task routes, field by field.\<close>

record auth_body =
  body_email :: "string option"
  body_password :: "string option"

record task_body =
  body_title :: "string option"
  body_completed :: "bool option"
  body_user :: "nat option"

text \<open>
  \<open>User.findOne({ email })\<close>: the filter value is cast by the schema, setters included,
  so it is trimmed; an absent value matches no document, since every stored email is a
  string.
\<close>

definition User_findOne :: "db \<Rightarrow> string option \<Rightarrow> User option" where
  "User_findOne d e =
     (case e of None \<Rightarrow> None | Some s \<Rightarrow> find (\<lambda>u. email u = trim s) (users d))"

text \<open>
  \<open>new User({ email, password })\<close>, \<open>user.password = hash\<close>, \<open>user.save()\<close>: the email
  is trimmed and required, the unique index refuses a second document with the same
  email.
\<close>

definition User_save :: "db \<Rightarrow> nat \<Rightarrow> string option \<Rightarrow> pwhash \<Rightarrow> lib_error + (User \<times> db)" where
  "User_save d now e h =
     (case e of
        None \<Rightarrow> Inl (ValidationError ''email'')
      | Some s \<Rightarrow>
          if trim s = [] then Inl (ValidationError ''email'')
          else if trim s \<in> set (map email (users d)) then Inl DuplicateKey
          else
            let u = \<lparr>u_id = next_oid d, email = trim s, password = h,
                     u_createdAt = now, u_updatedAt = now\<rparr>
            in Inr (u, d\<lparr>users := users d @ [u], next_oid := Suc (next_oid d)\<rparr>))"

text \<open>\<open>Task.find({ user }).sort({ createdAt: -1 })\<close>.\<close>

definition Task_find :: "db \<Rightarrow> nat \<Rightarrow> Task list" where
  "Task_find d uid = filter (\<lambda>t. user t = uid) (tasks d)"

definition sort_createdAt_desc :: "Task list \<Rightarrow> Task list" where
  "sort_createdAt_desc ts = rev (sort_key createdAt ts)"

text \<open>
  \<open>new Task({ title, user })\<close> and \<open>save()\<close>: the title is trimmed and required,
  \<open>completed\<close> takes the schema's default.
\<close>

definition Task_save :: "db \<Rightarrow> nat \<Rightarrow> string option \<Rightarrow> nat \<Rightarrow> lib_error + (Task \<times> db)" where
  "Task_save d now ttl uid =
     (case ttl of
        None \<Rightarrow> Inl (ValidationError ''title'')
      | Some s \<Rightarrow>
          if trim s = [] then Inl (ValidationError ''title'')
          else
            let t = \<lparr>t_id = next_oid d, title = trim s, completed = False, user = uid,
                     createdAt = now, updatedAt = now\<rparr>
            in Inr (t, d\<lparr>tasks := tasks d @ [t], next_oid := Suc (next_oid d)\<rparr>))"

text \<open>
  \<open>Task.findOneAndUpdate({ _id, user }, body, { new: true, runValidators: true })\<close>.
  The body is cast to \<open>$set\<close> of the schema paths it names; the update validators run
  on those paths before the store is asked (a title that trims to the empty string
  fails \<open>required\<close>); the first document that matches the filter is updated,
  \<open>updatedAt\<close> with it, and returned as updated.
\<close>

definition validate_update :: "task_body \<Rightarrow> lib_error option" where
  "validate_update b =
     (case body_title b of
        None \<Rightarrow> None
      | Some s \<Rightarrow> if trim s = [] then Some (ValidationError ''title'') else None)"

definition apply_update :: "nat \<Rightarrow> task_body \<Rightarrow> Task \<Rightarrow> Task" where
  "apply_update now b t =
     t\<lparr>title := (case body_title b of None \<Rightarrow> title t | Some s \<Rightarrow> trim s),
       completed := (case body_completed b of None \<Rightarrow> completed t | Some c \<Rightarrow> c),
       user := (case body_user b of None \<Rightarrow> user t | Some u \<Rightarrow> u),
       updatedAt := now\<rparr>"

fun update_first :: "('a \<Rightarrow> bool) \<Rightarrow> ('a \<Rightarrow> 'a) \<Rightarrow> 'a list \<Rightarrow> 'a list" where
  "update_first P f [] = []"
| "update_first P f (x # xs) = (if P x then f x # xs else x # update_first P f xs)"

fun delete_first :: "('a \<Rightarrow> bool) \<Rightarrow> 'a list \<Rightarrow> 'a list" where
  "delete_first P [] = []"
| "delete_first P (x # xs) = (if P x then xs else x # delete_first P xs)"

definition owned :: "nat \<Rightarrow> nat \<Rightarrow> Task \<Rightarrow> bool" where
  "owned i uid t = (t_id t = i \<and> user t = uid)"

text \<open>
  \<open>req.params.id\<close> is a segment of the path: the text of an ObjectId, or any other
  text. Mongoose casts the \<open>_id\<close> of a filter first of all, and throws a cast error for
  a text that is not an ObjectId's.
\<close>

datatype id_param = ObjectIdText nat | OtherText

fun castObjectId :: "id_param \<Rightarrow> lib_error + nat" where
  "castObjectId (ObjectIdText i) = Inr i"
| "castObjectId OtherText = Inl (CastError ''_id'')"

definition Task_findOneAndUpdate ::
  "db \<Rightarrow> nat \<Rightarrow> id_param \<Rightarrow> nat \<Rightarrow> task_body \<Rightarrow> lib_error + (Task option \<times> db)" where
  "Task_findOneAndUpdate d now p uid b =
     (case castObjectId p of
        Inl e \<Rightarrow> Inl e
      | Inr i \<Rightarrow>
     (case validate_update b of
        Some e \<Rightarrow> Inl e
      | None \<Rightarrow>
          (case find (owned i uid) (tasks d) of
             None \<Rightarrow> Inr (None, d)
           | Some t \<Rightarrow>
               Inr (Some (apply_update now b t),
                    d\<lparr>tasks := update_first (owned i uid) (apply_update now b) (tasks d)\<rparr>))))"

text \<open>\<open>Task.findOneAndDelete({ _id, user })\<close>.\<close>

definition Task_findOneAndDelete ::
  "db \<Rightarrow> id_param \<Rightarrow> nat \<Rightarrow> lib_error + (Task option \<times> db)" where
  "Task_findOneAndDelete d p uid =
     (case castObjectId p of
        Inl e \<Rightarrow> Inl e
      | Inr i \<Rightarrow>
          (case find (owned i uid) (tasks d) of
             None \<Rightarrow> Inr (None, d)
           | Some t \<Rightarrow> Inr (Some t, d\<lparr>tasks := delete_first (owned i uid) (tasks d)\<rparr>)))"

subsection \<open>Responses\<close>

datatype json =
    Message string
  | ErrMessage lib_error
  | TokenJson string
  | TaskJson Task
  | TaskListJson "Task list"

type_synonym response = "nat \<times> json"

subsection \<open>authMiddleware\<close>

text \<open>
  The header is \<open>None\<close> when the request has none; an empty header is falsy as well.
  The result is the response sent, or \<open>req.user\<close> when \<open>next()\<close> is called.
\<close>

definition authMiddleware :: "string \<Rightarrow> nat \<Rightarrow> string option \<Rightarrow> response + nat" where
  "authMiddleware JWT_SECRET now authHeader =
     (case authHeader of
        None \<Rightarrow> Inl (401, Message ''Authorization header missing'')
      | Some h \<Rightarrow>
          if h = [] then Inl (401, Message ''Authorization header missing'')
          else
            let token = replace ''Bearer '' [] h in
            if token = [] then Inl (401, Message ''No token, authorization denied'')
            else
              (case jwt_verify token JWT_SECRET now of
                 Inl e \<Rightarrow> Inl (401, Message ''Token is not valid'')
               | Inr decoded \<Rightarrow> Inr (userId decoded)))"

subsection \<open>Auth routes\<close>

text \<open>\<open>POST /api/auth/register\<close>; \<open>salt\<close> is what \<open>bcrypt.genSalt(10)\<close> draws.\<close>

definition register :: "string \<Rightarrow> db \<Rightarrow> nat \<Rightarrow> nat \<Rightarrow> auth_body \<Rightarrow> response \<times> db" where
  "register JWT_SECRET d now salt body =
     (case User_findOne d (body_email body) of
        Some user' \<Rightarrow> ((400, Message ''User already exists''), d)
      | None \<Rightarrow>
          (case bcrypt_hash (body_password body) salt of
             Inl err \<Rightarrow> ((500, Message ''Server error during registration''), d)
           | Inr h \<Rightarrow>
               (case User_save d now (body_email body) h of
                  Inl err \<Rightarrow> ((500, Message ''Server error during registration''), d)
                | Inr (user', d') \<Rightarrow>
                    (case jwt_sign (u_id user') JWT_SECRET 3600 now of
                       Inl err \<Rightarrow> ((500, Message ''Server error during registration''), d')
                     | Inr token \<Rightarrow> ((201, TokenJson token), d')))))"

text \<open>\<open>POST /api/auth/login\<close>.\<close>

definition login :: "string \<Rightarrow> db \<Rightarrow> nat \<Rightarrow> auth_body \<Rightarrow> response \<times> db" where
  "login JWT_SECRET d now body =
     (case User_findOne d (body_email body) of
        None \<Rightarrow> ((400, Message ''Invalid Credentials''), d)
      | Some user' \<Rightarrow>
          (case bcrypt_compare (body_password body) (password user') of
             Inl err \<Rightarrow> ((500, Message ''Server error during login''), d)
           | Inr isMatch \<Rightarrow>
               if \<not> isMatch then ((400, Message ''Invalid Credentials''), d)
               else
                 (case jwt_sign (u_id user') JWT_SECRET 3600 now of
                    Inl err \<Rightarrow> ((500, Message ''Server error during login''), d)
                  | Inr token \<Rightarrow> ((200, TokenJson token), d))))"

subsection \<open>Protected task routes\<close>

text \<open>
  Each route runs \<open>authMiddleware\<close> first and its handler on \<open>req.user\<close> after it. The
  \<open>catch\<close> branches are reached by the exceptions modelled here: a validation error of
  \<open>save\<close> or of \<open>findOneAndUpdate\<close>, and the cast error of a path id that is not an
  ObjectId's text (400 from \<open>PATCH\<close>, 500 from \<open>DELETE\<close>).
\<close>

definition get_tasks :: "string \<Rightarrow> db \<Rightarrow> nat \<Rightarrow> string option \<Rightarrow> response \<times> db" where
  "get_tasks JWT_SECRET d now authHeader =
     (case authMiddleware JWT_SECRET now authHeader of
        Inl res \<Rightarrow> (res, d)
      | Inr req_user \<Rightarrow> ((200, TaskListJson (sort_createdAt_desc (Task_find d req_user))), d))"

definition post_tasks ::
  "string \<Rightarrow> db \<Rightarrow> nat \<Rightarrow> string option \<Rightarrow> task_body \<Rightarrow> response \<times> db" where
  "post_tasks JWT_SECRET d now authHeader body =
     (case authMiddleware JWT_SECRET now authHeader of
        Inl res \<Rightarrow> (res, d)
      | Inr req_user \<Rightarrow>
          (case Task_save d now (body_title body) req_user of
             Inl err \<Rightarrow> ((400, ErrMessage err), d)
           | Inr (task, d') \<Rightarrow> ((201, TaskJson task), d')))"

definition patch_tasks ::
  "string \<Rightarrow> db \<Rightarrow> nat \<Rightarrow> string option \<Rightarrow> id_param \<Rightarrow> task_body \<Rightarrow> response \<times> db" where
  "patch_tasks JWT_SECRET d now authHeader params_id body =
     (case authMiddleware JWT_SECRET now authHeader of
        Inl res \<Rightarrow> (res, d)
      | Inr req_user \<Rightarrow>
          (case Task_findOneAndUpdate d now params_id req_user body of
             Inl err \<Rightarrow> ((400, ErrMessage err), d)
           | Inr (None, d') \<Rightarrow> ((404, Message ''Task not found or unauthorized''), d')
           | Inr (Some task, d') \<Rightarrow> ((200, TaskJson task), d')))"

definition delete_tasks ::
  "string \<Rightarrow> db \<Rightarrow> nat \<Rightarrow> string option \<Rightarrow> id_param \<Rightarrow> response \<times> db" where
  "delete_tasks JWT_SECRET d now authHeader params_id =
     (case authMiddleware JWT_SECRET now authHeader of
        Inl res \<Rightarrow> (res, d)
      | Inr req_user \<Rightarrow>
          (case Task_findOneAndDelete d params_id req_user of
             Inl err \<Rightarrow> ((500, ErrMessage err), d)
           | Inr (None, d') \<Rightarrow> ((404, Message ''Task not found or unauthorized''), d')
           | Inr (Some task, d') \<Rightarrow> ((200, Message ''Task deleted successfully''), d')))"

subsection \<open>Sequences of requests\<close>

datatype request =
    Register auth_body
  | Login auth_body
  | GetTasks "string option"
  | PostTasks "string option" task_body
  | PatchTasks "string option" id_param task_body
  | DeleteTasks "string option" id_param

text \<open>A request arrives with the clock and the salt of its handling.\<close>

fun handle :: "string \<Rightarrow> db \<Rightarrow> nat \<Rightarrow> nat \<Rightarrow> request \<Rightarrow> response \<times> db" where
  "handle k d now salt (Register b) = register k d now salt b"
| "handle k d now salt (Login b) = login k d now b"
| "handle k d now salt (GetTasks h) = get_tasks k d now h"
| "handle k d now salt (PostTasks h b) = post_tasks k d now h b"
| "handle k d now salt (PatchTasks h i b) = patch_tasks k d now h i b"
| "handle k d now salt (DeleteTasks h i) = delete_tasks k d now h i"

fun run :: "string \<Rightarrow> db \<Rightarrow> (nat \<times> nat \<times> request) list \<Rightarrow> db" where
  "run k d [] = d"
| "run k d ((now, salt, r) # rs) = run k (snd (handle k d now salt r)) rs"

subsection \<open>Example requests and stores\<close>

text \<open>The body \<open>{ completed: c }\<close> that the frontend's toggle sends.\<close>

definition set_completed :: "bool \<Rightarrow> task_body" where
  "set_completed c = \<lparr>body_title = None, body_completed = Some c, body_user = None\<rparr>"

text \<open>
  A store with two users and three tasks, the signing secret, and the headers of the
  two users' tokens (issued in the first second, so valid until second 3600).
\<close>

definition ex_secret :: string where
  "ex_secret = ''k3y''"

definition ex_db :: db where
  "ex_db =
     \<lparr>users =
        [\<lparr>u_id = 0, email = ''a@x.io'', password = Bcrypt 7 ''pw-a'',
          u_createdAt = 100, u_updatedAt = 100\<rparr>,
         \<lparr>u_id = 1, email = ''b@x.io'', password = Bcrypt 8 ''pw-b'',
          u_createdAt = 200, u_updatedAt = 200\<rparr>],
      tasks =
        [\<lparr>t_id = 2, title = ''Buy milk'', completed = False, user = 0,
          createdAt = 1000, updatedAt = 1000\<rparr>,
         \<lparr>t_id = 3, title = ''Pay rent'', completed = False, user = 1,
          createdAt = 2000, updatedAt = 2000\<rparr>,
         \<lparr>t_id = 4, title = ''Call home'', completed = True, user = 0,
          createdAt = 3000, updatedAt = 3000\<rparr>],
      next_oid = 5\<rparr>"

definition alice_header :: "string option" where
  "alice_header = Some ''Bearer 0.0.3600.k3y''"

definition bob_header :: "string option" where
  "bob_header = Some ''Bearer 1.0.3600.k3y''"

definition ex_register_body :: auth_body where
  "ex_register_body = \<lparr>body_email = Some '' a@x.io '', body_password = Some ''pw-a''\<rparr>"

definition ex_login_body :: auth_body where
  "ex_login_body = \<lparr>body_email = Some ''b@x.io'', body_password = Some ''pw-b''\<rparr>"

definition ex_task_body :: task_body where
  "ex_task_body =
     \<lparr>body_title = Some '' Water plants'', body_completed = Some True, body_user = Some 1\<rparr>"

definition ex_history :: "(nat \<times> nat \<times> request) list" where
  "ex_history =
     [(100, 7, Register \<lparr>body_email = Some ''a@x.io'', body_password = Some ''pw-a''\<rparr>),
      (200, 8, Register \<lparr>body_email = Some ''b@x.io'', body_password = Some ''pw-b''\<rparr>),
      (1000, 0, PostTasks alice_header
         \<lparr>body_title = Some ''Buy milk'', body_completed = None, body_user = None\<rparr>),
      (2000, 0, PostTasks bob_header
         \<lparr>body_title = Some ''Pay rent'', body_completed = None, body_user = None\<rparr>),
      (3000, 0, PostTasks alice_header
         \<lparr>body_title = Some ''Call home'', body_completed = None, body_user = None\<rparr>),
      (3000, 0, PatchTasks alice_header (ObjectIdText 4) (set_completed True))]"

text \<open>The invariant of the user collection: emails are distinct and none is empty.\<close>

definition users_ok :: "db \<Rightarrow> bool" where
  "users_ok d = (distinct (map email (users d)) \<and> [] \<notin> set (map email (users d)))"

text \<open>
  The invariant of the task collection: ids are distinct and below the counter that
  yields the next one.
\<close>

definition tasks_ok :: "db \<Rightarrow> bool" where
  "tasks_ok d =
     (distinct (map t_id (tasks d)) \<and> (\<forall>t\<in>set (tasks d). t_id t < next_oid d))"

section \<open>The libraries' model\<close>

subsection \<open>Tokens: decoding what was encoded\<close>

lemma digit_val_digit_char: "d < 10 \<Longrightarrow> digit_val (digit_char d) = Some d"
proof -
  assume "d < 10"
  then consider "d = 0" | "d = 1" | "d = 2" | "d = 3" | "d = 4" | "d = 5" | "d = 6"
    | "d = 7" | "d = 8" | "d = 9"
    by atomize_elim arith
  then show ?thesis
    by cases (simp_all add: digit_char_def)
qed

lemma digit_char_not_dot: "d < 10 \<Longrightarrow> digit_char d \<noteq> CHR ''.''"
proof -
  assume "d < 10"
  then consider "d = 0" | "d = 1" | "d = 2" | "d = 3" | "d = 4" | "d = 5" | "d = 6"
    | "d = 7" | "d = 8" | "d = 9"
    by atomize_elim arith
  then show ?thesis
    by cases (simp_all add: digit_char_def)
qed

lemma digits_nonempty: "digits n \<noteq> []"
  by (subst digits.simps) simp

lemma digits_no_dot: "CHR ''.'' \<notin> set (digits n)"
proof (induction n rule: digits.induct)
  case (1 n)
  show ?case
  proof (cases "n < 10")
    case True
    then show ?thesis
      using digit_char_not_dot [of n] by (subst digits.simps) auto
  next
    case False
    moreover have "n mod 10 < 10" by simp
    ultimately show ?thesis
      using 1 digit_char_not_dot [of "n mod 10"] by (subst digits.simps) auto
  qed
qed

lemma parse_digits_append:
  "parse_digits a (xs @ ys) =
     (case parse_digits a xs of None \<Rightarrow> None | Some b \<Rightarrow> parse_digits b ys)"
  by (induction xs arbitrary: a) (auto split: option.splits)

lemma parse_digits_digits: "parse_digits 0 (digits n) = Some n"
proof (induction n rule: digits.induct)
  case (1 n)
  show ?case
  proof (cases "n < 10")
    case True
    then show ?thesis
      by (subst digits.simps) (simp add: digit_val_digit_char del: digit_val.simps)
  next
    case False
    have "n mod 10 < 10" by simp
    then have "digit_val (digit_char (n mod 10)) = Some (n mod 10)"
      by (rule digit_val_digit_char)
    with False 1 show ?thesis
      by (subst digits.simps) (simp add: parse_digits_append del: digit_val.simps)
  qed
qed

lemma parse_nat_digits: "parse_nat (digits n) = Some n"
  by (simp add: parse_nat_def digits_nonempty parse_digits_digits)

lemma split_dot_append:
  "CHR ''.'' \<notin> set a \<Longrightarrow> split_dot (a @ CHR ''.'' # b) = Some (a, b)"
  by (induction a) auto

lemma jwt_decode_encode: "jwt_decode (jwt_encode j) = Some j"
  by (simp add: jwt_decode_def jwt_encode_def split_dot_append digits_no_dot parse_nat_digits)

lemma jwt_encode_nonempty: "jwt_encode j \<noteq> []"
  by (simp add: jwt_encode_def digits_nonempty)

lemma jwt_sign_decode:
  "jwt_sign uid k e now = Inr t \<Longrightarrow>
     k \<noteq> [] \<and>
     jwt_decode t = Some \<lparr>userId = uid, iat = now div 1000, exp = now div 1000 + e, key = k\<rparr>"
  by (auto simp: jwt_sign_def jwt_decode_encode split: if_splits)

lemma jwt_verify_iff:
  "jwt_verify t k now = Inr j \<longleftrightarrow>
     jwt_decode t = Some j \<and> k \<noteq> [] \<and> key j = k \<and> now < exp j * 1000"
proof -
  have "(now div 1000 < exp j) = (now < exp j * 1000)"
    by (simp add: div_less_iff_less_mult)
  then show ?thesis
    by (auto simp: jwt_verify_def not_le split: option.splits)
qed

subsection \<open>The header: removing the scheme marker\<close>

lemma replace_prefix: "replace pat rep (pat @ s) = rep @ s"
proof (cases "pat @ s")
  case Nil
  then show ?thesis by simp
next
  case (Cons c cs)
  have "prefix pat (c # cs)"
    unfolding Cons [symmetric] by simp
  then have "replace pat rep (c # cs) = rep @ drop (length pat) (c # cs)"
    by simp
  then show ?thesis
    unfolding Cons [symmetric] by simp
qed

lemma replace_absent: "\<not> sublist pat s \<Longrightarrow> replace pat rep s = s"
proof (induction s)
  case Nil
  then show ?case by auto
next
  case (Cons c cs)
  then show ?case
    by (auto simp: sublist_Cons_right)
qed

lemma replace_Bearer_Nil: "replace ''Bearer '' [] h = [] \<longleftrightarrow> h = [] \<or> h = ''Bearer ''"
proof (cases h)
  case Nil
  then show ?thesis by simp
next
  case (Cons c cs)
  show ?thesis
  proof (cases "prefix ''Bearer '' h")
    case True
    then obtain s where "h = ''Bearer '' @ s" by (auto simp: prefix_def)
    then show ?thesis
      using replace_prefix [of "''Bearer ''" "[]" s] by (auto simp del: replace.simps)
  next
    case False
    with Cons show ?thesis by auto
  qed
qed

lemma authMiddleware_cases:
  "authMiddleware k now hdr =
     (case hdr of None \<Rightarrow> Inl (401, Message ''Authorization header missing'')
      | Some h \<Rightarrow>
          if h = [] then Inl (401, Message ''Authorization header missing'')
          else if h = ''Bearer '' then Inl (401, Message ''No token, authorization denied'')
          else (case jwt_verify (replace ''Bearer '' [] h) k now of
                  Inl e \<Rightarrow> Inl (401, Message ''Token is not valid'')
                | Inr j \<Rightarrow> Inr (userId j)))"
proof (cases hdr)
  case None
  then show ?thesis by (simp add: authMiddleware_def)
next
  case (Some h)
  show ?thesis
    unfolding Some authMiddleware_def Let_def option.case
    using replace_Bearer_Nil [of h] by (simp del: replace.simps)
qed

lemma authMiddleware_Bearer:
  "t \<noteq> [] \<Longrightarrow>
   authMiddleware k now (Some (''Bearer '' @ t)) =
     (case jwt_verify t k now of
        Inl e \<Rightarrow> Inl (401, Message ''Token is not valid'')
      | Inr j \<Rightarrow> Inr (userId j))"
  using replace_prefix [of "''Bearer ''" "[]" t]
  by (simp add: authMiddleware_cases del: replace.simps)

lemma authMiddleware_Bearer_iff:
  "authMiddleware k now (Some (''Bearer '' @ t)) = Inr uid \<longleftrightarrow>
     (\<exists>j. jwt_decode t = Some j \<and> k \<noteq> [] \<and> key j = k \<and> now < exp j * 1000 \<and> userId j = uid)"
proof (cases "t = []")
  case True
  then show ?thesis
    by (simp add: authMiddleware_cases jwt_decode_def)
next
  case False
  note eq = authMiddleware_Bearer [OF False, of k now]
  show ?thesis
  proof (cases "jwt_verify t k now")
    case (Inl e)
    then have "\<And>j. jwt_verify t k now \<noteq> Inr j" by simp
    then have "\<not> (\<exists>j. jwt_decode t = Some j \<and> k \<noteq> [] \<and> key j = k \<and>
        now < exp j * 1000 \<and> userId j = uid)"
      unfolding jwt_verify_iff by blast
    with Inl show ?thesis unfolding eq by simp
  next
    case (Inr j)
    then have "jwt_decode t = Some j \<and> k \<noteq> [] \<and> key j = k \<and> now < exp j * 1000"
      by (simp add: jwt_verify_iff)
    with Inr show ?thesis unfolding eq by auto
  qed
qed

subsection \<open>The store: first match, sorting\<close>

lemma find_Some_P: "find P xs = Some t \<Longrightarrow> P t"
  by (induction xs) (auto split: if_splits)

lemma find_update_first:
  "find P xs = Some t \<Longrightarrow> P (f t) \<Longrightarrow> find P (update_first P f xs) = Some (f t)"
  by (induction xs) (auto split: if_splits)

lemma update_first_twice:
  "(\<And>x. P x \<Longrightarrow> P (f x)) \<Longrightarrow>
     update_first P g (update_first P f xs) = update_first P (\<lambda>x. g (f x)) xs"
  by (induction xs) auto

lemma update_first_cong_found:
  "find P xs = Some t \<Longrightarrow> f t = g t \<Longrightarrow> update_first P f xs = update_first P g xs"
  by (induction xs) (auto split: if_splits)

lemma find_owned_None:
  "find (owned i uid) ts = None \<longleftrightarrow> (\<forall>t\<in>set ts. t_id t = i \<longrightarrow> user t \<noteq> uid)"
  by (auto simp: find_None_iff owned_def)

text \<open>With distinct ids, the first match of a task's id and owner is the task.\<close>

lemma find_owned_distinct:
  "distinct (map t_id ts) \<Longrightarrow> t \<in> set ts \<Longrightarrow> find (owned (t_id t) (user t)) ts = Some t"
proof (induction ts)
  case Nil
  then show ?case by simp
next
  case (Cons x xs)
  show ?case
  proof (cases "x = t")
    case True
    then show ?thesis by (simp add: owned_def)
  next
    case False
    with Cons.prems have "t \<in> set xs" by simp
    with Cons.prems have "t_id x \<noteq> t_id t" by force
    with Cons \<open>t \<in> set xs\<close> show ?thesis by (simp add: owned_def)
  qed
qed

lemma update_first_distinct:
  "distinct (map t_id ts) \<Longrightarrow> t \<in> set ts \<Longrightarrow>
     update_first (owned (t_id t) (user t)) f ts = map (\<lambda>x. if x = t then f x else x) ts"
proof (induction ts)
  case Nil
  then show ?case by simp
next
  case (Cons x xs)
  show ?case
  proof (cases "x = t")
    case True
    with Cons.prems have "t_id t \<notin> t_id ` set xs" by simp
    then have "t \<notin> set xs" by blast
    then have "map (\<lambda>x. if x = t then f x else x) xs = xs"
      by (induction xs) auto
    with True show ?thesis by (simp add: owned_def)
  next
    case False
    with Cons.prems have "t \<in> set xs" by simp
    with Cons.prems have "t_id x \<noteq> t_id t" by force
    with Cons False \<open>t \<in> set xs\<close> show ?thesis by (simp add: owned_def)
  qed
qed

lemma map_t_id_update_first:
  "(\<And>x. t_id (f x) = t_id x) \<Longrightarrow> map t_id (update_first P f xs) = map t_id xs"
  by (induction xs) auto

lemma set_delete_first: "set (delete_first P xs) \<subseteq> set xs"
  by (induction xs) auto

lemma distinct_delete_first:
  "distinct (map f xs) \<Longrightarrow> distinct (map f (delete_first P xs))"
proof (induction xs)
  case Nil
  then show ?case by simp
next
  case (Cons x xs)
  then show ?case
    using set_delete_first [of P xs] by auto
qed

lemma t_id_apply_update: "t_id (apply_update now b t) = t_id t"
  by (simp add: apply_update_def)

lemma sort_createdAt_desc_sorted:
  "sorted_wrt (\<lambda>a b. createdAt b \<le> createdAt a) (sort_createdAt_desc ts)"
proof -
  have "sorted (map createdAt (sort_key createdAt ts))"
    by (rule sorted_sort_key)
  then have "sorted_wrt (\<lambda>a b. createdAt a \<le> createdAt b) (sort_key createdAt ts)"
    by (simp add: sorted_map)
  then show ?thesis
    by (simp add: sort_createdAt_desc_def sorted_wrt_rev)
qed

lemma sort_createdAt_desc_mset: "mset (sort_createdAt_desc ts) = mset ts"
  by (simp add: sort_createdAt_desc_def)

lemma sort_createdAt_desc_set: "set (sort_createdAt_desc ts) = set ts"
  by (simp add: sort_createdAt_desc_def)

lemma User_findOne_Some:
  "trim e \<in> set (map email (users d)) \<Longrightarrow> \<exists>u. User_findOne d (Some e) = Some u"
proof -
  assume "trim e \<in> set (map email (users d))"
  then have "\<exists>u\<in>set (users d). email u = trim e" by auto
  then have "find (\<lambda>u. email u = trim e) (users d) \<noteq> None"
    unfolding find_None_iff by blast
  then show ?thesis by (auto simp: User_findOne_def)
qed

lemma User_findOne_blank:
  assumes "[] \<notin> set (map email (users d))"
    and "e = None \<or> (\<exists>s. e = Some s \<and> trim s = [])"
  shows "User_findOne d e = None"
proof (cases e)
  case None
  then show ?thesis by (simp add: User_findOne_def)
next
  case (Some s)
  with assms(2) have "trim s = []" by simp
  moreover have "find (\<lambda>u. email u = []) (users d) = None"
    using assms(1) unfolding find_None_iff by force
  ultimately show ?thesis using Some by (simp add: User_findOne_def)
qed

subsection \<open>Evaluating the examples\<close>

lemmas ex_defs = ex_secret_def ex_db_def alice_header_def bob_header_def
  ex_register_body_def ex_task_body_def empty_db_def set_completed_def

lemmas jwt_eval = authMiddleware_def jwt_verify_def jwt_decode_def parse_nat_def
  jwt_sign_def jwt_encode_def digits.simps digit_char_def

lemmas store_eval = User_findOne_def User_save_def Task_find_def Task_save_def
  Task_findOneAndUpdate_def Task_findOneAndDelete_def validate_update_def apply_update_def
  owned_def trim_def is_ws_def bcrypt_hash_def Let_def

lemma alice_auth: "authMiddleware ex_secret 5000 alice_header = Inr 0"
  by (simp add: authMiddleware_def jwt_verify_def jwt_decode_def parse_nat_def
      ex_secret_def alice_header_def)

lemma alice_auth_later: "authMiddleware ex_secret 9000 alice_header = Inr 0"
  by (simp add: authMiddleware_def jwt_verify_def jwt_decode_def parse_nat_def
      ex_secret_def alice_header_def)

lemma bob_auth: "authMiddleware ex_secret 5000 bob_header = Inr 1"
  by (simp add: authMiddleware_def jwt_verify_def jwt_decode_def parse_nat_def
      ex_secret_def bob_header_def)

lemma ex_register_token:
  "register ex_secret empty_db 0 7 ex_register_body =
     ((201, TokenJson ''0.0.3600.k3y''),
      \<lparr>users = [\<lparr>u_id = 0, email = ''a@x.io'', password = Bcrypt 7 ''pw-a'',
                 u_createdAt = 0, u_updatedAt = 0\<rparr>], tasks = [], next_oid = 1\<rparr>)"
  by (simp add: register_def ex_defs jwt_eval store_eval)

text \<open>Bob logs in with his password and is issued a token.\<close>

lemma ex_login_token:
  "login ex_secret ex_db 5000 ex_login_body = ((200, TokenJson ''1.5.3605.k3y''), ex_db)"
  by (simp add: login_def User_findOne_def trim_def is_ws_def ex_login_body_def ex_db_def
      ex_secret_def jwt_sign_def jwt_encode_def digits.simps digit_char_def)

text \<open>The example store is the one the example history of requests builds.\<close>

lemma ex_db_reachable: "run ex_secret empty_db ex_history = ex_db"
  by (simp add: ex_history_def register_def post_tasks_def patch_tasks_def
      ex_defs jwt_eval store_eval)

lemma ex_get_tasks:
  "get_tasks ex_secret ex_db 5000 alice_header =
     ((200, TaskListJson
        [\<lparr>t_id = 4, title = ''Call home'', completed = True, user = 0,
          createdAt = 3000, updatedAt = 3000\<rparr>,
         \<lparr>t_id = 2, title = ''Buy milk'', completed = False, user = 0,
          createdAt = 1000, updatedAt = 1000\<rparr>]), ex_db)"
  by (simp add: get_tasks_def alice_auth Task_find_def sort_createdAt_desc_def)
    (simp add: ex_db_def)

lemma ex_register_twice:
  "map email (users (run ex_secret empty_db
      [(0, 7, Register ex_register_body), (10, 8, Register ex_register_body)])) = [''a@x.io'']"
  by (simp add: register_def ex_defs jwt_eval store_eval)

section \<open>Ownership of tasks\<close>

lemma patch_tasks_found:
  assumes "authMiddleware k now h = Inr uid"
    and "find (owned i uid) (tasks d) = Some t"
    and "validate_update b = None"
  shows "patch_tasks k d now h (ObjectIdText i) b =
           ((200, TaskJson (apply_update now b t)),
            d\<lparr>tasks := update_first (owned i uid) (apply_update now b) (tasks d)\<rparr>)"
  using assms by (simp add: patch_tasks_def Task_findOneAndUpdate_def)

text \<open>
  What the update does to the owner reference: a body without a \<open>user\<close> field leaves
  it, a body with one overwrites it.
\<close>

lemma apply_update_user:
  "user (apply_update now b t) = (case body_user b of None \<Rightarrow> user t | Some u \<Rightarrow> u)"
  by (simp add: apply_update_def)

text \<open>
  Claim C1 (the owner of a task is taken from the verified token only, a \<open>user\<close> field of
  the body is ignored, and the owner never changes after creation). \<open>POST /api/tasks\<close>
  does so (see C10), \<open>PATCH /api/tasks/:id\<close> does not: the handler hands the whole body
  to \<open>findOneAndUpdate\<close>, so the owner of task 2, authenticated by her own token, who
  sends \<open>{ user: 1 }\<close> gets 200 and the task now belongs to user 1.
\<close>

theorem patch_body_user_changes_owner:
  "map user (tasks ex_db) = [0, 1, 0] \<and>
   authMiddleware ex_secret 5000 alice_header = Inr 0 \<and>
   fst (patch_tasks ex_secret ex_db 5000 alice_header (ObjectIdText 2)
         \<lparr>body_title = None, body_completed = None, body_user = Some 1\<rparr>) =
     (200, TaskJson \<lparr>t_id = 2, title = ''Buy milk'', completed = False, user = 1,
                     createdAt = 1000, updatedAt = 5000\<rparr>) \<and>
   map user (tasks (snd (patch_tasks ex_secret ex_db 5000 alice_header (ObjectIdText 2)
         \<lparr>body_title = None, body_completed = None, body_user = Some 1\<rparr>))) = [1, 1, 0]"
  by (simp add: patch_tasks_def alice_auth store_eval ex_db_def)

text \<open>
  Claim C2, as the code has it. Let the path id be the text of an ObjectId that no task
  of the caller carries: it does not exist, or its task belongs to another user. Then
  \<open>DELETE\<close> answers 404 "Task not found or unauthorized", and so does \<open>PATCH\<close> when its
  body passes the update validators; a \<open>PATCH\<close> whose body fails them (a title that is
  empty once trimmed) is answered 400 with the validation error, before the store is
  asked. A path id that is not the text of an ObjectId is answered with the cast error,
  400 by \<open>PATCH\<close> and 500 by \<open>DELETE\<close>, whatever the store holds. In each case the store
  is unchanged and the response is fixed by the path id's form and the body alone, so
  it carries no task data and is the same whether the id does not exist or belongs
  to another user.
\<close>

theorem not_owned_404:
  assumes a: "authMiddleware k now h = Inr uid"
    and n: "\<forall>t\<in>set (tasks d). t_id t = i \<longrightarrow> user t \<noteq> uid"
  shows "delete_tasks k d now h (ObjectIdText i) =
           ((404, Message ''Task not found or unauthorized''), d) \<and>
         patch_tasks k d now h (ObjectIdText i) b =
           ((case validate_update b of
               None \<Rightarrow> (404, Message ''Task not found or unauthorized'')
             | Some e \<Rightarrow> (400, ErrMessage e)), d) \<and>
         delete_tasks k d now h OtherText = ((500, ErrMessage (CastError ''_id'')), d) \<and>
         patch_tasks k d now h OtherText b = ((400, ErrMessage (CastError ''_id'')), d)"
proof -
  from n have "find (owned i uid) (tasks d) = None"
    by (simp add: find_owned_None)
  with a show ?thesis
    by (simp add: delete_tasks_def patch_tasks_def Task_findOneAndDelete_def
        Task_findOneAndUpdate_def split: option.splits)
qed

text \<open>
  Bob (user 1) on task 2, which is Alice's, on the ObjectId 99, which no task carries,
  and on a path id that is not an ObjectId's text.
\<close>

theorem not_owned_404_witness:
  "delete_tasks ex_secret ex_db 5000 bob_header (ObjectIdText 2) =
     ((404, Message ''Task not found or unauthorized''), ex_db) \<and>
   patch_tasks ex_secret ex_db 5000 bob_header (ObjectIdText 2) (set_completed True) =
     ((404, Message ''Task not found or unauthorized''), ex_db) \<and>
   delete_tasks ex_secret ex_db 5000 bob_header (ObjectIdText 99) =
     ((404, Message ''Task not found or unauthorized''), ex_db) \<and>
   delete_tasks ex_secret ex_db 5000 bob_header OtherText =
     ((500, ErrMessage (CastError ''_id'')), ex_db) \<and>
   patch_tasks ex_secret ex_db 5000 bob_header OtherText (set_completed True) =
     ((400, ErrMessage (CastError ''_id'')), ex_db)"
proof -
  have n: "\<forall>t\<in>set (tasks ex_db). t_id t = 2 \<longrightarrow> user t \<noteq> 1"
    by (simp add: ex_db_def)
  have m: "\<forall>t\<in>set (tasks ex_db). t_id t = 99 \<longrightarrow> user t \<noteq> 1"
    by (simp add: ex_db_def)
  show ?thesis
    using not_owned_404 [OF bob_auth n, of "set_completed True"] not_owned_404 [OF bob_auth m]
    by (simp add: validate_update_def set_completed_def)
qed

text \<open>
  The claim as stated fails: Bob's \<open>PATCH\<close> of Alice's task 2 with a blank title is
  answered 400, not 404.
\<close>

theorem patch_invalid_body_not_404:
  "map t_id (tasks ex_db) = [2, 3, 4] \<and> map user (tasks ex_db) = [0, 1, 0] \<and>
   authMiddleware ex_secret 5000 bob_header = Inr 1 \<and>
   patch_tasks ex_secret ex_db 5000 bob_header (ObjectIdText 2)
       \<lparr>body_title = Some '' '', body_completed = None, body_user = None\<rparr> =
     ((400, ErrMessage (ValidationError ''title'')), ex_db)"
  by (simp add: patch_tasks_def bob_auth store_eval) (simp add: ex_db_def)

section \<open>Login\<close>

text \<open>
  What the comparison reads of a password: of one whose UTF-8 text has 72 bytes or
  more, nothing behind them.
\<close>

lemma bcrypt_key_long: "72 \<le> length (utf8 p) \<Longrightarrow> bcrypt_key (p @ x) = bcrypt_key p"
proof -
  assume l: "72 \<le> length (utf8 p)"
  have u: "utf8 (p @ x) = utf8 p @ utf8 x"
    by (simp add: utf8_def)
  have r: "\<And>a :: string. replicate 72 a = a # replicate 71 a"
    by (simp add: numeral_eq_Suc)
  have t: "\<And>r. take 72 (utf8 p @ r) = take 72 (utf8 p)"
    using l by simp
  have c: "\<And>r rs. concat ((utf8 p @ r) # rs) = utf8 p @ (r @ concat rs)"
    by simp
  have k: "\<And>q. take 72 (concat (replicate 72 (utf8 p @ q))) = take 72 (utf8 p)"
    unfolding r c t ..
  show ?thesis
    unfolding bcrypt_key_def u append_assoc k ..
qed

lemma bcrypt_compare_long:
  "72 \<le> length (utf8 p) \<Longrightarrow> bcrypt_compare (Some (p @ x)) (Bcrypt salt (p @ y)) = Inr True"
  by (simp add: bcrypt_key_long)

text \<open>
  With a password in the body, an unknown identifier and a password whose key is not
  the stored one's get the same response.
\<close>

lemma login_wrong_password:
  assumes "body_password b = Some p"
    and "User_findOne d (body_email b) = Some u"
    and "password u = Bcrypt s q" and "bcrypt_key p \<noteq> bcrypt_key q"
    and "User_findOne d' (body_email b) = None"
  shows "fst (login k d now b) = (400, Message ''Invalid Credentials'')"
    and "fst (login k d' now b) = (400, Message ''Invalid Credentials'')"
  using assms by (simp_all add: login_def)

text \<open>
  Claim C3 (for every login request, an unknown identifier and a known identifier whose
  password does not match get the same error, so a caller cannot tell them apart). The
  two 400 branches of the handler are identical, but a request whose password is
  absent or not a string does not reach the second: \<open>bcrypt.compare\<close> throws, and the
  \<open>catch\<close> answers 500 for a known identifier, where an unknown one is answered 400.
\<close>

theorem login_absent_password_distinguishes:
  "map email (users ex_db) = [''a@x.io'', ''b@x.io''] \<and>
   login ex_secret ex_db 5000 \<lparr>body_email = Some ''a@x.io'', body_password = None\<rparr> =
     ((500, Message ''Server error during login''), ex_db) \<and>
   login ex_secret ex_db 5000 \<lparr>body_email = Some ''z@x.io'', body_password = None\<rparr> =
     ((400, Message ''Invalid Credentials''), ex_db)"
  by (simp add: login_def User_findOne_def trim_def is_ws_def) (simp add: ex_db_def)

section \<open>Tokens and the guard\<close>

lemma register_token:
  "snd (fst (register k d now salt b)) = TokenJson t \<Longrightarrow>
     \<exists>uid. jwt_sign uid k 3600 now = Inr t"
  by (auto simp: register_def split: option.splits sum.splits prod.splits)

lemma login_token:
  "snd (fst (login k d now b)) = TokenJson t \<Longrightarrow>
     \<exists>uid. jwt_sign uid k 3600 now = Inr t"
  by (auto simp: login_def split: option.splits sum.splits prod.splits if_splits)

lemma issued_window:
  assumes "jwt_sign uid k 3600 T = Inr t"
  shows "authMiddleware k (T + 59 * 60 * 1000) (Some (''Bearer '' @ t)) = Inr uid"
    and "authMiddleware k (T + 61 * 60 * 1000) (Some (''Bearer '' @ t)) =
           Inl (401, Message ''Token is not valid'')"
proof -
  from assms have k: "k \<noteq> []"
    and d: "jwt_decode t =
      Some \<lparr>userId = uid, iat = T div 1000, exp = T div 1000 + 3600, key = k\<rparr>"
    using jwt_sign_decode by blast+
  from assms have ne: "t \<noteq> []"
    by (auto simp: jwt_sign_def jwt_encode_nonempty split: if_splits)
  have a: "(T + 59 * 60 * 1000) div 1000 = T div 1000 + 3540" by simp
  have b: "(T + 61 * 60 * 1000) div 1000 = T div 1000 + 3660" by simp
  show "authMiddleware k (T + 59 * 60 * 1000) (Some (''Bearer '' @ t)) = Inr uid"
    unfolding authMiddleware_Bearer [OF ne] jwt_verify_def d option.case a using k by simp
  show "authMiddleware k (T + 61 * 60 * 1000) (Some (''Bearer '' @ t)) =
      Inl (401, Message ''Token is not valid'')"
    unfolding authMiddleware_Bearer [OF ne] jwt_verify_def d option.case b using k by simp
qed

text \<open>
  Claim C4. A token that \<open>register\<close> or \<open>login\<close> returns at time \<open>T\<close> (milliseconds)
  decodes to a payload signed with the secret whose \<open>iat\<close> is \<open>T\<close> in whole seconds and
  whose \<open>exp\<close> is \<open>iat + 3600\<close>; the guard accepts it 59 minutes after \<open>T\<close> and rejects it
  61 minutes after \<open>T\<close>. For any token sent behind \<open>Bearer \<close>, the guard yields an
  identity exactly when the token decodes, its signature is the secret's, and the
  current time is before its expiry; the identity is the token's \<open>userId\<close>.
\<close>

theorem token_expiry:
  "(snd (fst (register k d T salt b)) = TokenJson t \<or>
    snd (fst (login k d T b)) = TokenJson t \<longrightarrow>
      (\<exists>j. jwt_decode t = Some j \<and> iat j = T div 1000 \<and> exp j = iat j + 3600 \<and> key j = k \<and>
           authMiddleware k (T + 59 * 60 * 1000) (Some (''Bearer '' @ t)) = Inr (userId j) \<and>
           authMiddleware k (T + 61 * 60 * 1000) (Some (''Bearer '' @ t)) =
             Inl (401, Message ''Token is not valid''))) \<and>
   (authMiddleware k now (Some (''Bearer '' @ t')) = Inr uid \<longleftrightarrow>
      (\<exists>j. jwt_decode t' = Some j \<and> k \<noteq> [] \<and> key j = k \<and> now < exp j * 1000 \<and>
           userId j = uid))"
proof (intro conjI impI)
  assume "snd (fst (register k d T salt b)) = TokenJson t \<or>
    snd (fst (login k d T b)) = TokenJson t"
  then obtain u where s: "jwt_sign u k 3600 T = Inr t"
    using register_token login_token by blast
  let ?j = "\<lparr>userId = u, iat = T div 1000, exp = T div 1000 + 3600, key = k\<rparr>"
  have "jwt_decode t = Some ?j"
    using jwt_sign_decode [OF s] by simp
  moreover have "authMiddleware k (T + 59 * 60 * 1000) (Some (''Bearer '' @ t)) =
      Inr (userId ?j)"
    using issued_window(1) [OF s] by simp
  moreover have "authMiddleware k (T + 61 * 60 * 1000) (Some (''Bearer '' @ t)) =
      Inl (401, Message ''Token is not valid'')"
    by (rule issued_window(2) [OF s])
  ultimately show "\<exists>j. jwt_decode t = Some j \<and> iat j = T div 1000 \<and>
           exp j = iat j + 3600 \<and> key j = k \<and>
           authMiddleware k (T + 59 * 60 * 1000) (Some (''Bearer '' @ t)) = Inr (userId j) \<and>
           authMiddleware k (T + 61 * 60 * 1000) (Some (''Bearer '' @ t)) =
             Inl (401, Message ''Token is not valid'')"
    by (intro exI [of _ ?j]) simp
next
  show "authMiddleware k now (Some (''Bearer '' @ t')) = Inr uid \<longleftrightarrow>
      (\<exists>j. jwt_decode t' = Some j \<and> k \<noteq> [] \<and> key j = k \<and> now < exp j * 1000 \<and>
           userId j = uid)"
    by (rule authMiddleware_Bearer_iff)
qed

text \<open>
  The token of a registration at time 0 and the token of a login at time 5000, each
  presented 59 and 61 minutes after it was issued.
\<close>

theorem token_expiry_witness:
  "snd (fst (register ex_secret empty_db 0 7 ex_register_body)) = TokenJson ''0.0.3600.k3y'' \<and>
   authMiddleware ex_secret (0 + 59 * 60 * 1000) (Some (''Bearer '' @ ''0.0.3600.k3y'')) = Inr 0 \<and>
   authMiddleware ex_secret (0 + 61 * 60 * 1000) (Some (''Bearer '' @ ''0.0.3600.k3y'')) =
     Inl (401, Message ''Token is not valid'') \<and>
   login ex_secret ex_db 5000 ex_login_body = ((200, TokenJson ''1.5.3605.k3y''), ex_db) \<and>
   authMiddleware ex_secret (5000 + 59 * 60 * 1000) (Some (''Bearer '' @ ''1.5.3605.k3y'')) =
     Inr 1 \<and>
   authMiddleware ex_secret (5000 + 61 * 60 * 1000) (Some (''Bearer '' @ ''1.5.3605.k3y'')) =
     Inl (401, Message ''Token is not valid'') \<and>
   (authMiddleware ex_secret 5000 (Some (''Bearer '' @ ''0.0.3600.k3y'')) = Inr 0 \<longleftrightarrow>
      (\<exists>j. jwt_decode ''0.0.3600.k3y'' = Some j \<and> ex_secret \<noteq> [] \<and> key j = ex_secret \<and>
           5000 < exp j * 1000 \<and> userId j = 0))"
proof -
  have h: "snd (fst (register ex_secret empty_db 0 7 ex_register_body)) =
      TokenJson ''0.0.3600.k3y''"
    by (simp add: ex_register_token)
  have d: "jwt_decode ''0.0.3600.k3y'' = Some \<lparr>userId = 0, iat = 0, exp = 3600, key = ''k3y''\<rparr>"
    by (simp add: jwt_decode_def parse_nat_def)
  note t = token_expiry [of ex_secret empty_db 0 7 ex_register_body "''0.0.3600.k3y''" 5000
      "''0.0.3600.k3y''" 0]
  from t h obtain j where "jwt_decode ''0.0.3600.k3y'' = Some j"
    and "authMiddleware ex_secret (0 + 59 * 60 * 1000) (Some (''Bearer '' @ ''0.0.3600.k3y'')) =
      Inr (userId j)"
    and "authMiddleware ex_secret (0 + 61 * 60 * 1000) (Some (''Bearer '' @ ''0.0.3600.k3y'')) =
      Inl (401, Message ''Token is not valid'')"
    by blast
  with d have r: "authMiddleware ex_secret (0 + 59 * 60 * 1000)
        (Some (''Bearer '' @ ''0.0.3600.k3y'')) = Inr 0"
      "authMiddleware ex_secret (0 + 61 * 60 * 1000) (Some (''Bearer '' @ ''0.0.3600.k3y'')) =
        Inl (401, Message ''Token is not valid'')"
    by auto
  have l: "login ex_secret ex_db 5000 ex_login_body = ((200, TokenJson ''1.5.3605.k3y''), ex_db)"
    by (rule ex_login_token)
  then have hl: "snd (fst (login ex_secret ex_db 5000 ex_login_body)) = TokenJson ''1.5.3605.k3y''"
    by simp
  have dl: "jwt_decode ''1.5.3605.k3y'' = Some \<lparr>userId = 1, iat = 5, exp = 3605, key = ''k3y''\<rparr>"
    by (simp add: jwt_decode_def parse_nat_def)
  note tl = token_expiry [of ex_secret ex_db 5000 7 ex_login_body "''1.5.3605.k3y''"]
  from tl hl obtain j' where "jwt_decode ''1.5.3605.k3y'' = Some j'"
    and "authMiddleware ex_secret (5000 + 59 * 60 * 1000)
        (Some (''Bearer '' @ ''1.5.3605.k3y'')) = Inr (userId j')"
    and "authMiddleware ex_secret (5000 + 61 * 60 * 1000)
        (Some (''Bearer '' @ ''1.5.3605.k3y'')) = Inl (401, Message ''Token is not valid'')"
    by blast
  with dl have rl: "authMiddleware ex_secret (5000 + 59 * 60 * 1000)
        (Some (''Bearer '' @ ''1.5.3605.k3y'')) = Inr 1"
      "authMiddleware ex_secret (5000 + 61 * 60 * 1000)
        (Some (''Bearer '' @ ''1.5.3605.k3y'')) = Inl (401, Message ''Token is not valid'')"
    by auto
  from t have i: "authMiddleware ex_secret 5000 (Some (''Bearer '' @ ''0.0.3600.k3y'')) = Inr 0 \<longleftrightarrow>
      (\<exists>j. jwt_decode ''0.0.3600.k3y'' = Some j \<and> ex_secret \<noteq> [] \<and> key j = ex_secret \<and>
           5000 < exp j * 1000 \<and> userId j = 0)"
    by blast
  from h r l rl i show ?thesis by blast
qed

text \<open>
  Claim C5, as the code has it. An absent or empty header is answered 401
  "Authorization header missing"; the header \<open>Bearer \<close> alone, whose token is empty once
  the marker is removed, is answered 401 "No token, authorization denied". Every other
  header is verified as the text left when the first occurrence of \<open>Bearer \<close> is removed:
  the text behind the marker when the header starts with it, the whole header when the
  marker does not occur. The marker is removed, not required.
\<close>

theorem authMiddleware_header:
  "authMiddleware k now None = Inl (401, Message ''Authorization header missing'') \<and>
   authMiddleware k now (Some []) = Inl (401, Message ''Authorization header missing'') \<and>
   authMiddleware k now (Some ''Bearer '') =
     Inl (401, Message ''No token, authorization denied'') \<and>
   (h \<noteq> [] \<and> h \<noteq> ''Bearer '' \<longrightarrow>
      authMiddleware k now (Some h) =
        (case jwt_verify (replace ''Bearer '' [] h) k now of
           Inl e \<Rightarrow> Inl (401, Message ''Token is not valid'')
         | Inr j \<Rightarrow> Inr (userId j))) \<and>
   replace ''Bearer '' [] (''Bearer '' @ t) = t \<and>
   (\<not> sublist ''Bearer '' h \<longrightarrow> replace ''Bearer '' [] h = h)"
  using replace_prefix [of "''Bearer ''" "[]" t] replace_absent [of "''Bearer ''" h "[]"]
  by (simp add: authMiddleware_cases del: replace.simps)

theorem authMiddleware_header_witness:
  "authMiddleware ex_secret 5000 None = Inl (401, Message ''Authorization header missing'') \<and>
   authMiddleware ex_secret 5000 (Some []) = Inl (401, Message ''Authorization header missing'') \<and>
   authMiddleware ex_secret 5000 (Some ''Bearer '') =
     Inl (401, Message ''No token, authorization denied'') \<and>
   authMiddleware ex_secret 5000 (Some ''0.0.3600.k3y'') =
     (case jwt_verify (replace ''Bearer '' [] ''0.0.3600.k3y'') ex_secret 5000 of
        Inl e \<Rightarrow> Inl (401, Message ''Token is not valid'')
      | Inr j \<Rightarrow> Inr (userId j)) \<and>
   replace ''Bearer '' [] (''Bearer '' @ ''0.0.3600.k3y'') = ''0.0.3600.k3y'' \<and>
   replace ''Bearer '' [] ''0.0.3600.k3y'' = ''0.0.3600.k3y''"
proof -
  have a: "''0.0.3600.k3y'' \<noteq> [] \<and> ''0.0.3600.k3y'' \<noteq> ''Bearer ''" by simp
  have b: "\<not> sublist ''Bearer '' ''0.0.3600.k3y''"
    by (simp add: sublist_Cons_right)
  show ?thesis
    using authMiddleware_header [of ex_secret 5000 "''0.0.3600.k3y''" "''0.0.3600.k3y''"] a b
    by blast
qed

text \<open>
  The claim as stated fails: a valid token sent as the whole header, without the
  marker, is accepted.
\<close>

theorem authMiddleware_no_prefix_accepted:
  "\<not> prefix ''Bearer '' ''0.0.3600.k3y'' \<and>
   authMiddleware ex_secret 5000 (Some ''0.0.3600.k3y'') = Inr 0"
  by (simp add: ex_defs jwt_eval)

section \<open>Registration\<close>

lemma register_users:
  "users (snd (register k d now salt b)) = users d \<or>
   (\<exists>u. users (snd (register k d now salt b)) = users d @ [u] \<and>
        email u \<noteq> [] \<and> email u \<notin> set (map email (users d)))"
  by (auto simp: register_def User_save_def Let_def bcrypt_hash_def
      split: option.splits sum.splits if_splits)

lemma login_users: "users (snd (login k d now b)) = users d"
  by (auto simp: login_def split: option.splits sum.splits)

lemma get_tasks_users: "users (snd (get_tasks k d now h)) = users d"
  by (auto simp: get_tasks_def split: sum.splits)

lemma post_tasks_users: "users (snd (post_tasks k d now h b)) = users d"
  by (auto simp: post_tasks_def Task_save_def Let_def split: sum.splits option.splits if_splits)

lemma patch_tasks_users: "users (snd (patch_tasks k d now h i b)) = users d"
  by (auto simp: patch_tasks_def Task_findOneAndUpdate_def split: sum.splits option.splits)

lemma delete_tasks_users: "users (snd (delete_tasks k d now h i)) = users d"
  by (auto simp: delete_tasks_def Task_findOneAndDelete_def split: sum.splits option.splits)

text \<open>Every request keeps the invariant of the user collection.\<close>

lemma handle_users_ok: "users_ok d \<Longrightarrow> users_ok (snd (handle k d now salt r))"
proof (cases r)
  case (Register b)
  assume "users_ok d"
  then show ?thesis
    using register_users [of k d now salt b] unfolding Register users_ok_def by auto
qed (simp_all add: users_ok_def login_users get_tasks_users post_tasks_users
    patch_tasks_users delete_tasks_users)

lemma run_users_ok: "users_ok d \<Longrightarrow> users_ok (run k d rs)"
  by (induction rs arbitrary: d) (auto simp: handle_users_ok)

lemma reachable_users_ok: "users_ok (run k empty_db rs)"
  by (rule run_users_ok) (simp add: users_ok_def empty_db_def)

text \<open>
  Claim C6. A register request whose identifier (as stored: trimmed) is already in the
  user collection is answered 400 "User already exists" and leaves the store as it
  was; and after any sequence of requests on the empty store, registrations among
  them, no two user records have the same identifier.
\<close>

theorem register_existing_identifier:
  "(body_email b = Some e \<and> trim e \<in> set (map email (users d)) \<longrightarrow>
      register k d now salt b = ((400, Message ''User already exists''), d)) \<and>
   distinct (map email (users (run k empty_db rs)))"
proof
  show "body_email b = Some e \<and> trim e \<in> set (map email (users d)) \<longrightarrow>
      register k d now salt b = ((400, Message ''User already exists''), d)"
    using User_findOne_Some [of e d] by (auto simp: register_def)
  show "distinct (map email (users (run k empty_db rs)))"
    using reachable_users_ok [of k rs] by (simp add: users_ok_def)
qed

text \<open>Registering \<open>a@x.io\<close> again, on the example store and twice on the empty store.\<close>

theorem register_existing_identifier_witness:
  "body_email ex_register_body = Some '' a@x.io '' \<and>
   trim '' a@x.io '' \<in> set (map email (users ex_db)) \<and>
   register ex_secret ex_db 5000 9 ex_register_body =
     ((400, Message ''User already exists''), ex_db) \<and>
   distinct (map email (users (run ex_secret empty_db
      [(0, 7, Register ex_register_body), (10, 8, Register ex_register_body)])))"
proof -
  have a: "body_email ex_register_body = Some '' a@x.io ''"
    by (simp add: ex_register_body_def)
  have b: "trim '' a@x.io '' \<in> set (map email (users ex_db))"
    by (simp add: trim_def is_ws_def ex_db_def)
  show ?thesis
    using register_existing_identifier [of ex_register_body "'' a@x.io ''" ex_db ex_secret 5000 9
        "[(0, 7, Register ex_register_body), (10, 8, Register ex_register_body)]"] a b
    by blast
qed

text \<open>
  Claim C7, as the code has it. The handler has no presence check and no 400 for
  missing fields. When the identifier is absent or blank, or the password is absent,
  no user record is created, and the response is the \<open>catch\<close> branch's 500 "Server
  error during registration", unless the identifier is already registered (then it is
  the 400 of C6). An absent or blank identifier is never registered in a store built
  by requests, so for it the response is always the 500.
\<close>

theorem register_missing_fields:
  "(body_email b = None \<or> (\<exists>s. body_email b = Some s \<and> trim s = []) \<or>
    body_password b = None \<longrightarrow>
      snd (register k d now salt b) = d \<and>
      fst (register k d now salt b) =
        (if User_findOne d (body_email b) = None
         then (500, Message ''Server error during registration'')
         else (400, Message ''User already exists''))) \<and>
   (body_email b = None \<or> (\<exists>s. body_email b = Some s \<and> trim s = []) \<longrightarrow>
      User_findOne (run k empty_db rs) (body_email b) = None)"
proof (intro conjI impI)
  assume m: "body_email b = None \<or> (\<exists>s. body_email b = Some s \<and> trim s = []) \<or>
    body_password b = None"
  then show "snd (register k d now salt b) = d"
    by (auto simp: register_def User_save_def bcrypt_hash_def split: option.splits sum.splits)
  from m show "fst (register k d now salt b) =
        (if User_findOne d (body_email b) = None
         then (500, Message ''Server error during registration'')
         else (400, Message ''User already exists''))"
    by (auto simp: register_def User_save_def bcrypt_hash_def split: option.splits sum.splits)
next
  assume "body_email b = None \<or> (\<exists>s. body_email b = Some s \<and> trim s = [])"
  moreover have "[] \<notin> set (map email (users (run k empty_db rs)))"
    using reachable_users_ok [of k rs] by (simp add: users_ok_def)
  ultimately show "User_findOne (run k empty_db rs) (body_email b) = None"
    by (intro User_findOne_blank) auto
qed

theorem register_missing_fields_witness:
  "register ex_secret ex_db 5000 9 \<lparr>body_email = None, body_password = Some ''pw''\<rparr> =
     ((500, Message ''Server error during registration''), ex_db) \<and>
   register ex_secret ex_db 5000 9 \<lparr>body_email = Some ''c@x.io'', body_password = None\<rparr> =
     ((500, Message ''Server error during registration''), ex_db) \<and>
   User_findOne (run ex_secret empty_db [(0, 7, Register ex_register_body)]) (Some ''  '') = None"
proof -
  have f: "User_findOne ex_db (Some ''c@x.io'') = None"
    by (simp add: User_findOne_def trim_def is_ws_def ex_db_def)
  have t: "trim ''  '' = []" by (simp add: trim_def is_ws_def)
  show ?thesis
    using register_missing_fields [of "\<lparr>body_email = None, body_password = Some ''pw''\<rparr>"
        ex_secret ex_db 5000 9]
      register_missing_fields [of "\<lparr>body_email = Some ''c@x.io'', body_password = None\<rparr>"
        ex_secret ex_db 5000 9]
      register_missing_fields [of "\<lparr>body_email = Some ''  '', body_password = None\<rparr>"
        ex_secret ex_db 5000 9 "[(0, 7, Register ex_register_body)]"] f t
    by (auto simp: User_findOne_def prod_eq_iff)
qed

text \<open>
  The claim as stated fails: without an identifier the response is 500, not 400, and
  an empty password is hashed like any other, so the registration succeeds.
\<close>

theorem register_missing_fields_not_400:
  "register ex_secret empty_db 5000 9 \<lparr>body_email = None, body_password = Some ''pw''\<rparr> =
     ((500, Message ''Server error during registration''), empty_db) \<and>
   register ex_secret empty_db 5000 9 \<lparr>body_email = Some ''c@x.io'', body_password = Some []\<rparr> =
     ((201, TokenJson ''0.5.3605.k3y''),
      \<lparr>users = [\<lparr>u_id = 0, email = ''c@x.io'', password = Bcrypt 9 [],
                 u_createdAt = 5000, u_updatedAt = 5000\<rparr>], tasks = [], next_oid = 1\<rparr>)"
  by (simp add: register_def ex_defs jwt_eval store_eval)

section \<open>Reading, creating and toggling tasks\<close>

text \<open>
  Claim C8. An authenticated \<open>GET /api/tasks\<close> is answered 200 with a list that holds
  exactly the tasks whose owner is the identity of the token, each as often as the
  store holds it, newest first by \<open>createdAt\<close>; the store is unchanged.
\<close>

theorem get_tasks_own_newest_first:
  assumes "authMiddleware k now h = Inr uid"
  shows "\<exists>ts. get_tasks k d now h = ((200, TaskListJson ts), d) \<and>
           set ts = {t \<in> set (tasks d). user t = uid} \<and>
           mset ts = filter_mset (\<lambda>t. user t = uid) (mset (tasks d)) \<and>
           sorted_wrt (\<lambda>a b. createdAt b \<le> createdAt a) ts"
proof -
  let ?ts = "sort_createdAt_desc (Task_find d uid)"
  have "get_tasks k d now h = ((200, TaskListJson ?ts), d)"
    using assms by (simp add: get_tasks_def)
  moreover have "set ?ts = {t \<in> set (tasks d). user t = uid}"
    by (auto simp: sort_createdAt_desc_set Task_find_def)
  moreover have "mset ?ts = filter_mset (\<lambda>t. user t = uid) (mset (tasks d))"
    by (simp add: sort_createdAt_desc_mset Task_find_def)
  moreover have "sorted_wrt (\<lambda>a b. createdAt b \<le> createdAt a) ?ts"
    by (rule sort_createdAt_desc_sorted)
  ultimately show ?thesis by blast
qed

theorem get_tasks_own_newest_first_witness:
  "authMiddleware ex_secret 5000 alice_header = Inr 0 \<and>
   (\<exists>ts. get_tasks ex_secret ex_db 5000 alice_header = ((200, TaskListJson ts), ex_db) \<and>
         set ts = {t \<in> set (tasks ex_db). user t = 0} \<and>
         mset ts = filter_mset (\<lambda>t. user t = 0) (mset (tasks ex_db)) \<and>
         sorted_wrt (\<lambda>a b. createdAt b \<le> createdAt a) ts)"
  using get_tasks_own_newest_first [OF alice_auth, of ex_db] alice_auth by simp

subsection \<open>The invariant of the task collection\<close>

lemma register_tasks:
  "tasks (snd (register k d now salt b)) = tasks d \<and>
   next_oid d \<le> next_oid (snd (register k d now salt b))"
  by (auto simp: register_def User_save_def Let_def split: option.splits sum.splits if_splits)

lemma login_db: "snd (login k d now b) = d"
  by (auto simp: login_def split: option.splits sum.splits)

lemma get_tasks_db: "snd (get_tasks k d now h) = d"
  by (auto simp: get_tasks_def split: sum.splits)

lemma post_tasks_ok: "tasks_ok d \<Longrightarrow> tasks_ok (snd (post_tasks k d now h b))"
  by (auto simp: post_tasks_def Task_save_def Let_def tasks_ok_def
      split: sum.splits option.splits if_splits)

lemma patch_tasks_ok: "tasks_ok d \<Longrightarrow> tasks_ok (snd (patch_tasks k d now h i b))"
proof -
  assume ok: "tasks_ok d"
  have m: "\<And>P. map t_id (update_first P (apply_update now b) (tasks d)) = map t_id (tasks d)"
    by (rule map_t_id_update_first) (rule t_id_apply_update)
  then have s: "\<And>P. t_id ` set (update_first P (apply_update now b) (tasks d)) =
      t_id ` set (tasks d)"
    by (metis set_map)
  have "\<And>P. tasks_ok (d\<lparr>tasks := update_first P (apply_update now b) (tasks d)\<rparr>)"
    using ok m s unfolding tasks_ok_def by (auto simp: image_iff) (metis imageI image_iff)+
  with ok show ?thesis
    by (auto simp: patch_tasks_def Task_findOneAndUpdate_def split: sum.splits option.splits)
qed

lemma delete_tasks_ok: "tasks_ok d \<Longrightarrow> tasks_ok (snd (delete_tasks k d now h i))"
proof -
  assume ok: "tasks_ok d"
  have "\<And>P. tasks_ok (d\<lparr>tasks := delete_first P (tasks d)\<rparr>)"
    using ok set_delete_first [of _ "tasks d"] distinct_delete_first [of t_id "tasks d"]
    unfolding tasks_ok_def by auto
  with ok show ?thesis
    by (auto simp: delete_tasks_def Task_findOneAndDelete_def split: sum.splits option.splits)
qed

lemma handle_tasks_ok: "tasks_ok d \<Longrightarrow> tasks_ok (snd (handle k d now salt r))"
proof (cases r)
  case (Register b)
  assume "tasks_ok d"
  then show ?thesis
    using register_tasks [of k d now salt b] unfolding Register tasks_ok_def by fastforce
qed (simp_all add: login_db get_tasks_db post_tasks_ok patch_tasks_ok delete_tasks_ok)

lemma run_tasks_ok: "tasks_ok d \<Longrightarrow> tasks_ok (run k d rs)"
  by (induction rs arbitrary: d) (auto simp: handle_tasks_ok)

text \<open>In every store built by requests the task ids are distinct.\<close>

lemma reachable_tasks_ok: "tasks_ok (run k empty_db rs)"
  by (rule run_tasks_ok) (simp add: tasks_ok_def empty_db_def)

subsection \<open>Toggling completion\<close>

text \<open>The two requests on the first task that matches the id and the caller.\<close>

lemma toggle_twice_found:
  assumes a1: "authMiddleware k now1 h1 = Inr uid"
    and a2: "authMiddleware k now2 h2 = Inr uid"
    and f: "find (owned i uid) (tasks d) = Some t"
    and c: "\<not> completed t"
  shows "\<exists>t1 d1.
           patch_tasks k d now1 h1 (ObjectIdText i) (set_completed True) = ((200, TaskJson t1), d1) \<and>
           completed t1 \<and> title t1 = title t \<and>
           patch_tasks k d1 now2 h2 (ObjectIdText i) (set_completed False) =
             ((200, TaskJson (t\<lparr>updatedAt := now2\<rparr>)),
              d\<lparr>tasks := update_first (owned i uid) (\<lambda>x. x\<lparr>updatedAt := now2\<rparr>) (tasks d)\<rparr>)"
proof -
  let ?P = "owned i uid"
  let ?fa = "apply_update now1 (set_completed True)"
  let ?fb = "apply_update now2 (set_completed False)"
  let ?da = "d\<lparr>tasks := update_first ?P ?fa (tasks d)\<rparr>"
  have v: "validate_update (set_completed True) = None"
    "validate_update (set_completed False) = None"
    by (simp_all add: validate_update_def set_completed_def)
  have keep: "\<And>x. ?P x \<Longrightarrow> ?P (?fa x)"
    by (simp add: owned_def apply_update_def set_completed_def)
  have Pt: "?P t" using f by (rule find_Some_P)
  have p1: "patch_tasks k d now1 h1 (ObjectIdText i) (set_completed True) = ((200, TaskJson (?fa t)), ?da)"
    by (rule patch_tasks_found [OF a1 f v(1)])
  have f1: "find ?P (tasks ?da) = Some (?fa t)"
    using find_update_first [of ?P "tasks d" t ?fa, OF f keep [OF Pt]] by simp
  have p2: "patch_tasks k ?da now2 h2 (ObjectIdText i) (set_completed False) =
      ((200, TaskJson (?fb (?fa t))), ?da\<lparr>tasks := update_first ?P ?fb (tasks ?da)\<rparr>)"
    by (rule patch_tasks_found [OF a2 f1 v(2)])
  have undo: "?fb (?fa t) = t\<lparr>updatedAt := now2\<rparr>"
    using c by (simp add: apply_update_def set_completed_def)
  have "update_first ?P ?fb (update_first ?P ?fa (tasks d)) =
      update_first ?P (\<lambda>x. ?fb (?fa x)) (tasks d)"
    using keep by (rule update_first_twice)
  also have "\<dots> = update_first ?P (\<lambda>x. x\<lparr>updatedAt := now2\<rparr>) (tasks d)"
    using f undo by (rule update_first_cong_found)
  finally have ts: "update_first ?P ?fb (tasks ?da) =
      update_first ?P (\<lambda>x. x\<lparr>updatedAt := now2\<rparr>) (tasks d)"
    by simp
  have "completed (?fa t)" "title (?fa t) = title t"
    by (simp_all add: apply_update_def set_completed_def)
  with p1 p2 undo ts show ?thesis by auto
qed

text \<open>
  Claim C9. In a store with distinct task ids (every store built by requests is one),
  let a task of the caller be not completed. Then \<open>PATCH { completed: true }\<close> and
  \<open>PATCH { completed: false }\<close> on its id are both answered 200; the first returns the
  task completed, the second returns the task as it was, and so is the store after it:
  the id, the title, the completion flag, the owner and \<open>createdAt\<close> are the original
  ones, and only \<open>updatedAt\<close> is the time of the last request.
\<close>

theorem toggle_completed_twice:
  assumes a1: "authMiddleware k now1 h1 = Inr uid"
    and a2: "authMiddleware k now2 h2 = Inr uid"
    and dist: "distinct (map t_id (tasks d))"
    and mem: "t \<in> set (tasks d)"
    and own: "user t = uid"
    and c: "\<not> completed t"
  shows "\<exists>t1 d1.
           patch_tasks k d now1 h1 (ObjectIdText (t_id t)) (set_completed True) = ((200, TaskJson t1), d1) \<and>
           t1 = t\<lparr>completed := True, updatedAt := now1\<rparr> \<and>
           patch_tasks k d1 now2 h2 (ObjectIdText (t_id t)) (set_completed False) =
             ((200, TaskJson (t\<lparr>updatedAt := now2\<rparr>)),
              d\<lparr>tasks := map (\<lambda>x. if x = t then x\<lparr>updatedAt := now2\<rparr> else x) (tasks d)\<rparr>)"
proof -
  have f: "find (owned (t_id t) uid) (tasks d) = Some t"
    using find_owned_distinct [OF dist mem] own by simp
  have u: "update_first (owned (t_id t) uid) (\<lambda>x. x\<lparr>updatedAt := now2\<rparr>) (tasks d) =
      map (\<lambda>x. if x = t then x\<lparr>updatedAt := now2\<rparr> else x) (tasks d)"
    using update_first_distinct [OF dist mem] own by simp
  have v: "validate_update (set_completed True) = None"
    by (simp add: validate_update_def set_completed_def)
  have p: "patch_tasks k d now1 h1 (ObjectIdText (t_id t)) (set_completed True) =
      ((200, TaskJson (apply_update now1 (set_completed True) t)),
       d\<lparr>tasks := update_first (owned (t_id t) uid)
                    (apply_update now1 (set_completed True)) (tasks d)\<rparr>)"
    by (rule patch_tasks_found [OF a1 f v])
  have e: "apply_update now1 (set_completed True) t = t\<lparr>completed := True, updatedAt := now1\<rparr>"
    by (simp add: apply_update_def set_completed_def)
  from toggle_twice_found [OF a1 a2 f c] obtain t1 d1 where
    q: "patch_tasks k d now1 h1 (ObjectIdText (t_id t)) (set_completed True) = ((200, TaskJson t1), d1)"
      "patch_tasks k d1 now2 h2 (ObjectIdText (t_id t)) (set_completed False) =
        ((200, TaskJson (t\<lparr>updatedAt := now2\<rparr>)),
         d\<lparr>tasks := update_first (owned (t_id t) uid) (\<lambda>x. x\<lparr>updatedAt := now2\<rparr>) (tasks d)\<rparr>)"
    by blast
  from q(1) p e have "t1 = t\<lparr>completed := True, updatedAt := now1\<rparr>" by simp
  with q u show ?thesis by simp
qed

text \<open>Alice toggles her task 2 at 5000 and back at 9000.\<close>

theorem toggle_completed_twice_witness:
  "fst (patch_tasks ex_secret ex_db 5000 alice_header (ObjectIdText 2) (set_completed True)) =
     (200, TaskJson \<lparr>t_id = 2, title = ''Buy milk'', completed = True, user = 0,
                     createdAt = 1000, updatedAt = 5000\<rparr>) \<and>
   patch_tasks ex_secret
       (snd (patch_tasks ex_secret ex_db 5000 alice_header (ObjectIdText 2) (set_completed True)))
       9000 alice_header (ObjectIdText 2) (set_completed False) =
     ((200, TaskJson \<lparr>t_id = 2, title = ''Buy milk'', completed = False, user = 0,
                      createdAt = 1000, updatedAt = 9000\<rparr>),
      ex_db\<lparr>tasks :=
        [\<lparr>t_id = 2, title = ''Buy milk'', completed = False, user = 0,
          createdAt = 1000, updatedAt = 9000\<rparr>,
         \<lparr>t_id = 3, title = ''Pay rent'', completed = False, user = 1,
          createdAt = 2000, updatedAt = 2000\<rparr>,
         \<lparr>t_id = 4, title = ''Call home'', completed = True, user = 0,
          createdAt = 3000, updatedAt = 3000\<rparr>]\<rparr>)"
proof -
  let ?t = "\<lparr>t_id = 2, title = ''Buy milk'', completed = False, user = 0,
             createdAt = 1000, updatedAt = 1000\<rparr>"
  have dist: "distinct (map t_id (tasks ex_db))"
    by (simp add: ex_db_def)
  have mem: "?t \<in> set (tasks ex_db)"
    by (simp add: ex_db_def)
  have own: "user ?t = 0" and c: "\<not> completed ?t"
    by simp_all
  have ts: "map (\<lambda>x. if x = ?t then x\<lparr>updatedAt := 9000\<rparr> else x) (tasks ex_db) =
      [\<lparr>t_id = 2, title = ''Buy milk'', completed = False, user = 0,
        createdAt = 1000, updatedAt = 9000\<rparr>,
       \<lparr>t_id = 3, title = ''Pay rent'', completed = False, user = 1,
        createdAt = 2000, updatedAt = 2000\<rparr>,
       \<lparr>t_id = 4, title = ''Call home'', completed = True, user = 0,
        createdAt = 3000, updatedAt = 3000\<rparr>]"
    by (simp add: ex_db_def)
  show ?thesis
    using toggle_completed_twice [OF alice_auth alice_auth_later dist mem own c] ts
    by auto
qed

text \<open>
  Claim C10. An authenticated \<open>POST /api/tasks\<close> whose title is present and not blank
  is answered 201 with a new task whose \<open>completed\<close> is false, whose owner is the
  identity of the token and whose title is the body's, trimmed; without such a title
  it is answered 400 and nothing is created. The \<open>completed\<close> and \<open>user\<close> fields of the
  body have no effect on the response or on the store.
\<close>

theorem post_tasks_owner_and_default:
  assumes "authMiddleware k now h = Inr uid"
  shows "(body_title b = Some s \<and> trim s \<noteq> [] \<longrightarrow>
            post_tasks k d now h b =
              ((201, TaskJson \<lparr>t_id = next_oid d, title = trim s, completed = False, user = uid,
                               createdAt = now, updatedAt = now\<rparr>),
               d\<lparr>tasks := tasks d @ [\<lparr>t_id = next_oid d, title = trim s, completed = False,
                                      user = uid, createdAt = now, updatedAt = now\<rparr>],
                 next_oid := Suc (next_oid d)\<rparr>)) \<and>
         (body_title b = None \<or> (\<exists>s. body_title b = Some s \<and> trim s = []) \<longrightarrow>
            post_tasks k d now h b = ((400, ErrMessage (ValidationError ''title'')), d)) \<and>
         post_tasks k d now h (b\<lparr>body_completed := c, body_user := u\<rparr>) = post_tasks k d now h b"
  using assms by (auto simp: post_tasks_def Task_save_def Let_def)

text \<open>Alice posts a body that also names \<open>completed: true\<close> and \<open>user: 1\<close>.\<close>

theorem post_tasks_owner_and_default_witness:
  "authMiddleware ex_secret 5000 alice_header = Inr 0 \<and>
   body_title ex_task_body = Some '' Water plants'' \<and>
   trim '' Water plants'' = ''Water plants'' \<and>
   post_tasks ex_secret ex_db 5000 alice_header ex_task_body =
     ((201, TaskJson \<lparr>t_id = 5, title = ''Water plants'', completed = False, user = 0,
                      createdAt = 5000, updatedAt = 5000\<rparr>),
      ex_db\<lparr>tasks := tasks ex_db @ [\<lparr>t_id = 5, title = ''Water plants'', completed = False,
                                     user = 0, createdAt = 5000, updatedAt = 5000\<rparr>],
            next_oid := 6\<rparr>) \<and>
   post_tasks ex_secret ex_db 5000 alice_header
       (ex_task_body\<lparr>body_completed := None, body_user := None\<rparr>) =
     post_tasks ex_secret ex_db 5000 alice_header ex_task_body"
proof -
  have t: "trim '' Water plants'' = ''Water plants''"
    by (simp add: trim_def is_ws_def)
  have b: "body_title ex_task_body = Some '' Water plants''"
    by (simp add: ex_task_body_def)
  have n: "next_oid ex_db = 5" by (simp add: ex_db_def)
  show ?thesis
    using post_tasks_owner_and_default [OF alice_auth, of ex_task_body "'' Water plants''"
        ex_db None None] alice_auth t b n
    by simp
qed

end
